theory Spec2Isabelle
  imports Main
begin

section \<open>Data model of the course detail page\<close>

text \<open>
  The page is one React component, \<^verbatim>\<open>CourseDetail\<close>. Its \<^verbatim>\<open>useState\<close> cells form the
  state; the asynchronous handlers are modelled as functions from the state before to the
  state after, together with the list of effects they perform, in program order
  (requests sent, navigation, toasts, console output).
\<close>

subsection \<open>Interfaces\<close>

datatype section_item = SectionItem (item_id: string) (item_title: string)

record course_section =
  section_id :: string
  section_title :: string
  section_videos :: "section_item list"
  section_quizzes :: "section_item list"

text \<open>\<^verbatim>\<open>price\<close> is a JavaScript number; nothing modelled here reads it.\<close>

record CourseInfo =
  course_id :: string
  course_title :: string
  course_description :: string
  price :: int
  instructor_name :: string
  image_url :: string
  sections :: "course_section list"

record Video =
  video_id :: string
  cloudinary_url :: string
  video_title :: string
  video_description :: string
  watched :: bool

text \<open>Of \<^verbatim>\<open>EnrolledCourse\<close> the optional fields are never read; the two required ones are kept.\<close>

record EnrolledCourse =
  enrolled_id :: string
  enrolled_title :: string

datatype application_status = NOT_APPLIED | PENDING | APPROVED | REJECTED

record ApplicationStatusResponse =
  status :: application_status

datatype bank_account = BankAccount (bank_name: string) (account_name: string) (account_number: string)

record PurchaseInfo =
  purchase_course_title :: string
  purchase_course_price :: int
  bank_accounts :: "bank_account list"

text \<open>A browser \<^verbatim>\<open>File\<close>, identified by its name.\<close>

datatype upload = File string

record EnrollmentFormData =
  first_name :: string
  last_name :: string
  qualification :: string
  ultrasound_experience :: string
  contact_number :: string
  qualification_certificate :: "upload option"

subsection \<open>Component state\<close>

record page_state =
  course :: "CourseInfo option"
  applicationStatus :: "application_status option"
  isLoading :: bool
  error :: "string option"
  showEnrollmentForm :: bool
  isSubmitting :: bool
  enrollmentForm :: EnrollmentFormData
  showPaymentForm :: bool
  paymentFile :: "upload option"
  isSubmittingPayment :: bool
  purchaseInfo :: "PurchaseInfo option"
  isLoadingPurchaseInfo :: bool
  paymentSubmitted :: bool
  paymentPending :: bool
  videos :: "Video list"
  selectedVideo :: "Video option"
  isLoadingVideos :: bool
  isEnrolled :: bool
  completingVideoId :: "string option"

text \<open>The initial values given to \<^verbatim>\<open>useState\<close>.\<close>

definition initial_state :: page_state where
  "initial_state =
     \<lparr>course = None, applicationStatus = None, isLoading = True, error = None,
      showEnrollmentForm = False, isSubmitting = False,
      enrollmentForm = \<lparr>first_name = [], last_name = [], qualification = [],
        ultrasound_experience = [], contact_number = [], qualification_certificate = None\<rparr>,
      showPaymentForm = False, paymentFile = None, isSubmittingPayment = False,
      purchaseInfo = None, isLoadingPurchaseInfo = False,
      paymentSubmitted = False, paymentPending = False,
      videos = [], selectedVideo = None, isLoadingVideos = False,
      isEnrolled = False, completingVideoId = None\<rparr>"

subsection \<open>Requests and their outcomes\<close>

text \<open>
  \<^verbatim>\<open>fetchWithAuth\<close>, \<^verbatim>\<open>handleApiResponse\<close> and \<^verbatim>\<open>UnauthorizedError\<close> are imported from
  \<^verbatim>\<open>@/lib/api\<close>, which is not among the sources. What they return is therefore a parameter
  of every handler: a request either rejects with a thrown value or resolves with a
  response, and a response carries, besides \<^verbatim>\<open>ok\<close> and \<^verbatim>\<open>status\<close>, the result that
  \<^verbatim>\<open>handleApiResponse\<close> gives on it (the parsed body, or a thrown value).

  A thrown value is an \<^verbatim>\<open>UnauthorizedError\<close>, another \<^verbatim>\<open>Error\<close> (both with their message), or
  a value that is no \<^verbatim>\<open>Error\<close> at all.
\<close>

datatype thrown = UnauthorizedError string | OtherError string | NonError

datatype 'a response = Response (ok: bool) (http_status: nat) (handled: "thrown + 'a")

datatype 'a fetched = Rejected thrown | Resolved "'a response"

definition handleApiResponse :: "'a response \<Rightarrow> thrown + 'a" where
  "handleApiResponse r = handled r"

fun isUnauthorized :: "thrown \<Rightarrow> bool" where
  "isUnauthorized (UnauthorizedError m) = True"
| "isUnauthorized (OtherError m) = False"
| "isUnauthorized NonError = False"

text \<open>\<^verbatim>\<open>await handleApiResponse(await fetchWithAuth(...))\<close>: the value, or what is thrown.\<close>

definition awaitHandled :: "'a fetched \<Rightarrow> thrown + 'a" where
  "awaitHandled f = (case f of Rejected e \<Rightarrow> Inl e | Resolved r \<Rightarrow> handleApiResponse r)"

datatype endpoint =
    CourseDetailReq string
  | EnrollmentStatusReq string
  | PaymentProofStatusReq string
  | MyCoursesReq
  | ApplyReq
  | PaymentProofReq string
  | VideoCompleteReq string

text \<open>The path each request is sent to, as the template strings build it.\<close>

fun url :: "endpoint \<Rightarrow> string" where
  "url (CourseDetailReq c) = ''/api/courses/explore-courses/'' @ c"
| "url (EnrollmentStatusReq c) = ''/api/courses/my-courses/'' @ c @ ''/enrollment-status''"
| "url (PaymentProofStatusReq c) = ''/api/enrollments/'' @ c @ ''/payment-proof/status''"
| "url MyCoursesReq = ''/api/courses/my-courses''"
| "url ApplyReq = ''/api/enrollments/apply''"
| "url (PaymentProofReq c) = ''/api/enrollments/'' @ c @ ''/payment-proof''"
| "url (VideoCompleteReq v) = ''/api/courses/videos/'' @ v @ ''/complete''"

datatype effect =
    Fetch endpoint
  | Navigate string
  | ToastError string
  | ToastSuccess string
  | ConsoleLog string
  | ConsoleWarn string
  | ConsoleError string
  | PreventDefault

fun isFetch :: "effect \<Rightarrow> bool" where
  "isFetch (Fetch r) = True"
| "isFetch e = False"

fun isNavigate :: "effect \<Rightarrow> bool" where
  "isNavigate (Navigate p) = True"
| "isNavigate e = False"

fun isToast :: "effect \<Rightarrow> bool" where
  "isToast (ToastError m) = True"
| "isToast (ToastSuccess m) = True"
| "isToast e = False"

fun isToastError :: "effect \<Rightarrow> bool" where
  "isToastError (ToastError m) = True"
| "isToastError e = False"

text \<open>
  \<^verbatim>\<open>courseId\<close> comes from \<^verbatim>\<open>useParams\<close> and is a string or \<^verbatim>\<open>undefined\<close>; \<^verbatim>\<open>!courseId\<close>
  holds for \<^verbatim>\<open>undefined\<close> and for the empty string. \<open>present\<close> gives the id when it is
  truthy.
\<close>

fun present :: "string option \<Rightarrow> string option" where
  "present None = None"
| "present (Some c) = (if c = [] then None else Some c)"

section \<open>The reconciler: \<^verbatim>\<open>fetchCourseAndStatus\<close>\<close>

record reconcile_env =
  courseFetch :: "CourseInfo fetched"
  statusFetch :: "ApplicationStatusResponse fetched"
  paymentStatusFetch :: "string fetched"
  enrolledFetch :: "EnrolledCourse list fetched"

text \<open>
  The inner \<^verbatim>\<open>try\<close> around the enrollment-status request: any throw, from the request or
  from \<^verbatim>\<open>handleApiResponse\<close>, is caught and replaced by \<^verbatim>\<open>{ status: 'NOT_APPLIED' }\<close>.
\<close>

definition resolveStatus :: "ApplicationStatusResponse fetched \<Rightarrow> ApplicationStatusResponse \<times> effect list" where
  "resolveStatus f =
     (case awaitHandled f of
        Inr statusResponse \<Rightarrow> (statusResponse, [])
      | Inl statusError \<Rightarrow>
          (\<lparr>status = NOT_APPLIED\<rparr>,
           [ConsoleLog ''Enrollment status endpoint failed, will check enrollment directly'']))"

text \<open>
  The payment-proof block. The body of the status response is \<^verbatim>\<open>{ status: string }\<close>,
  modelled by that string.
\<close>

definition checkPaymentProof :: "string \<Rightarrow> string fetched \<Rightarrow> page_state \<Rightarrow> page_state \<times> effect list" where
  "checkPaymentProof cid f s =
     (let caught = (s\<lparr>paymentSubmitted := False, paymentPending := False\<rparr>,
            [Fetch (PaymentProofStatusReq cid),
             ConsoleError ''Could not check payment proof status, assuming it's not submitted.''])
      in case f of
        Rejected err \<Rightarrow> caught
      | Resolved paymentStatusRes \<Rightarrow>
          if ok paymentStatusRes then
            (case handleApiResponse paymentStatusRes of
               Inl err \<Rightarrow> caught
             | Inr paymentStatusData \<Rightarrow>
                 if paymentStatusData = ''pending''
                 then (s\<lparr>paymentSubmitted := True, paymentPending := True\<rparr>,
                       [Fetch (PaymentProofStatusReq cid)])
                 else (s, [Fetch (PaymentProofStatusReq cid)]))
          else if http_status paymentStatusRes = 404 then
            (s\<lparr>paymentSubmitted := False, paymentPending := False\<rparr>,
             [Fetch (PaymentProofStatusReq cid), ConsoleLog ''Payment proof not yet submitted.''])
          else (s, [Fetch (PaymentProofStatusReq cid)]))"

text \<open>The membership block, with its own \<^verbatim>\<open>try\<close>: a failure only writes to the console.\<close>

definition checkEnrolled ::
  "string \<Rightarrow> ApplicationStatusResponse \<Rightarrow> EnrolledCourse list fetched \<Rightarrow> page_state \<Rightarrow> page_state \<times> effect list" where
  "checkEnrolled cid statusResponse f s =
     (case awaitHandled f of
        Inl enrollmentError \<Rightarrow>
          (s, [Fetch MyCoursesReq, ConsoleError ''Failed to check enrollment status:''])
      | Inr enrolledCourses \<Rightarrow>
          (let enrolledCourse = find (\<lambda>c. enrolled_id c = cid) enrolledCourses;
               isUserEnrolled = (enrolledCourse \<noteq> None);
               s1 = s\<lparr>isEnrolled := isUserEnrolled\<rparr>
           in if isUserEnrolled \<and> status statusResponse \<noteq> APPROVED
              then (s1\<lparr>applicationStatus := Some APPROVED\<rparr>,
                    [Fetch MyCoursesReq,
                     ConsoleLog ''User is enrolled but status was not APPROVED, updating status''])
              else (s1, [Fetch MyCoursesReq])))"

text \<open>
  The body of the outer \<^verbatim>\<open>try\<close> after the enrollment status is resolved, with the outer
  \<^verbatim>\<open>catch\<close>: only a failure of the course request reaches it.
\<close>

definition loadCourse ::
  "string \<Rightarrow> ApplicationStatusResponse \<Rightarrow> reconcile_env \<Rightarrow> page_state \<Rightarrow> page_state \<times> effect list" where
  "loadCourse cid statusResponse env s =
     (case awaitHandled (courseFetch env) of
        Inl err \<Rightarrow>
          if isUnauthorized err then (s, [Navigate ''/login''])
          else (s\<lparr>error := Some ''Failed to load course details. Please try again later.''\<rparr>, [])
      | Inr courseResponse \<Rightarrow>
          (let s1 = s\<lparr>course := Some courseResponse,
                      applicationStatus := Some (status statusResponse)\<rparr>;
               (s2, e2) = (if status statusResponse = APPROVED
                           then checkPaymentProof cid (paymentStatusFetch env) s1
                           else (s1, []));
               (s3, e3) = checkEnrolled cid statusResponse (enrolledFetch env) s2
           in (s3, e2 @ e3)))"

definition fetchCourseAndStatus ::
  "string option \<Rightarrow> reconcile_env \<Rightarrow> page_state \<Rightarrow> page_state \<times> effect list" where
  "fetchCourseAndStatus courseId env s =
     (case present courseId of
        None \<Rightarrow> (s\<lparr>error := Some ''Course ID is missing.'', isLoading := False\<rparr>, [])
      | Some cid \<Rightarrow>
          (let s0 = s\<lparr>isLoading := True\<rparr>;
               (statusResponse, e1) = resolveStatus (statusFetch env);
               (s', es) = loadCourse cid statusResponse env s0
           in (s'\<lparr>isLoading := False\<rparr>,
               [Fetch (CourseDetailReq cid), Fetch (EnrollmentStatusReq cid)] @ e1 @ es)))"

text \<open>What the reconciler observably did.\<close>

definition issued :: "endpoint \<Rightarrow> page_state \<times> effect list \<Rightarrow> bool" where
  "issued r out = (Fetch r \<in> set (snd out))"

definition navigations :: "page_state \<times> effect list \<Rightarrow> effect list" where
  "navigations out = filter isNavigate (snd out)"

text \<open>Whether the course request failed with an \<^verbatim>\<open>UnauthorizedError\<close>.\<close>

definition courseUnauthorized :: "reconcile_env \<Rightarrow> bool" where
  "courseUnauthorized env =
     (case awaitHandled (courseFetch env) of Inl err \<Rightarrow> isUnauthorized err | Inr c \<Rightarrow> False)"

section \<open>The submission handlers\<close>

subsection \<open>\<^verbatim>\<open>handleFormSubmit\<close>\<close>

text \<open>
  \<^verbatim>\<open>!enrollmentForm.first_name || ... || !enrollmentForm.contact_number\<close>: a string is falsy
  exactly when it is empty.
\<close>

definition requiredFieldEmpty :: "EnrollmentFormData \<Rightarrow> bool" where
  "requiredFieldEmpty f =
     (first_name f = [] \<or> last_name f = [] \<or> qualification f = [] \<or>
      ultrasound_experience f = [] \<or> contact_number f = [])"

text \<open>The \<^verbatim>\<open>catch\<close> of the application request: the message of an \<^verbatim>\<open>Error\<close> is appended.\<close>

fun enrollmentFailureToast :: "thrown \<Rightarrow> string" where
  "enrollmentFailureToast (UnauthorizedError m) = ''Failed to submit enrollment application: '' @ m"
| "enrollmentFailureToast (OtherError m) = ''Failed to submit enrollment application: '' @ m"
| "enrollmentFailureToast NonError = ''Failed to submit enrollment application.''"

definition handleFormSubmit ::
  "string option \<Rightarrow> unit fetched \<Rightarrow> page_state \<Rightarrow> page_state \<times> effect list" where
  "handleFormSubmit courseId submit s =
     (case present courseId of
        None \<Rightarrow> (s, [PreventDefault])
      | Some cid \<Rightarrow>
          if requiredFieldEmpty (enrollmentForm s)
          then (s, [PreventDefault, ToastError ''Please fill in all required fields.''])
          else (case qualification_certificate (enrollmentForm s) of
             None \<Rightarrow> (s, [PreventDefault, ToastError ''Please upload your qualification certificate.''])
           | Some certificate \<Rightarrow>
               (let s1 = s\<lparr>isSubmitting := True\<rparr>;
                    (s2, es) = (case awaitHandled submit of
                        Inr body \<Rightarrow>
                          (s1\<lparr>applicationStatus := Some PENDING, showEnrollmentForm := False\<rparr>,
                           [ToastSuccess ''Enrollment application submitted successfully!''])
                      | Inl err \<Rightarrow>
                          (s1, [ConsoleError ''Enrollment error:'',
                                ToastError (enrollmentFailureToast err)]))
                in (s2\<lparr>isSubmitting := False\<rparr>, [PreventDefault, Fetch ApplyReq] @ es))))"

subsection \<open>\<^verbatim>\<open>handlePaymentProofSubmit\<close>\<close>

text \<open>
  The body of the upload response, \<^verbatim>\<open>{ status: string; message?: string }\<close>. The status is
  optional here too, since the handler provides for a missing one. The handler also
  provides for a body that is \<^verbatim>\<open>null\<close> or \<^verbatim>\<open>undefined\<close> (\<^verbatim>\<open>data && ...\<close>), so what
  \<^verbatim>\<open>handleApiResponse\<close> returns is an optional body, \<open>None\<close> standing for both.
\<close>

record payment_proof_data =
  data_status :: "string option"
  data_message :: "string option"

text \<open>\<^verbatim>\<open>data.message || 'Payment proof submitted successfully!'\<close>\<close>

definition successMessage :: "payment_proof_data \<Rightarrow> string" where
  "successMessage d =
     (case data_message d of
        None \<Rightarrow> ''Payment proof submitted successfully!''
      | Some m \<Rightarrow> if m = [] then ''Payment proof submitted successfully!'' else m)"

text \<open>
  \<^verbatim>\<open>data.message\<close> is read before the \<^verbatim>\<open>data &&\<close> guard: on a missing body it throws a
  \<^verbatim>\<open>TypeError\<close> inside the \<^verbatim>\<open>try\<close>, and the \<^verbatim>\<open>catch\<close> block runs. Past that line the body
  is present and the guard holds.
\<close>

definition handlePaymentProofSubmit ::
  "string option \<Rightarrow> payment_proof_data option fetched \<Rightarrow> page_state \<Rightarrow> page_state \<times> effect list" where
  "handlePaymentProofSubmit courseId submit s =
     (case present courseId of
        None \<Rightarrow> (s, [PreventDefault])
      | Some cid \<Rightarrow>
          (case paymentFile s of
             None \<Rightarrow> (s, [PreventDefault])
           | Some staged \<Rightarrow>
               (let s1 = s\<lparr>isSubmittingPayment := True\<rparr>;
                    (s2, es) = (case awaitHandled submit of
                        Inl err \<Rightarrow> (s1, [ToastError ''Failed to submit payment proof.''])
                      | Inr data \<Rightarrow>
                          (case data of
                             None \<Rightarrow> (s1, [ToastError ''Failed to submit payment proof.''])
                           | Some d \<Rightarrow>
                               (let (s3, e3) =
                                      (if data_status d = Some ''pending''
                                       then (s1\<lparr>paymentSubmitted := True, paymentPending := True\<rparr>, [])
                                       else (s1\<lparr>paymentSubmitted := True, paymentPending := True\<rparr>,
                                             [ConsoleWarn ''Payment status not returned as pending in POST response. Optimistically updating UI.'']))
                                in (s3\<lparr>showPaymentForm := False, paymentFile := None\<rparr>,
                                    [ToastSuccess (successMessage d)] @ e3))))
                in (s2\<lparr>isSubmittingPayment := False\<rparr>,
                    [PreventDefault, Fetch (PaymentProofReq cid)] @ es))))"

section \<open>\<^verbatim>\<open>handleVideoToggleWatched\<close>\<close>

text \<open>
  The handler awaits \<^verbatim>\<open>fetchWithAuth\<close> only and never looks at the response: the \<^verbatim>\<open>try\<close>
  body runs to its end whenever the request resolves, and the \<^verbatim>\<open>catch\<close> runs when it
  rejects.
\<close>

text \<open>
  The function mapped over the list:
  \<^verbatim>\<open>v => v.id === video.id ? { ...v, watched: newWatchedState } : v\<close>.
\<close>

definition markWatched :: "string \<Rightarrow> bool \<Rightarrow> Video \<Rightarrow> Video" where
  "markWatched i b v = (if video_id v = i then v\<lparr>watched := b\<rparr> else v)"

definition handleVideoToggleWatched ::
  "Video \<Rightarrow> unit fetched \<Rightarrow> page_state \<Rightarrow> page_state \<times> effect list" where
  "handleVideoToggleWatched video f s =
     (let s1 = s\<lparr>completingVideoId := Some (video_id video)\<rparr>;
          (s2, es) = (case f of
              Rejected err \<Rightarrow>
                (s1, [ConsoleError ''Failed to toggle video status:'',
                      ToastError ''Failed to update video status.''])
            | Resolved r \<Rightarrow>
                (let newWatchedState = (\<not> watched video)
                 in (s1\<lparr>videos := map (markWatched (video_id video) newWatchedState) (videos s1),
                        selectedVideo :=
                          (case selectedVideo s1 of
                             None \<Rightarrow> None
                           | Some prev \<Rightarrow>
                               if video_id prev = video_id video
                               then Some (prev\<lparr>watched := newWatchedState\<rparr>) else Some prev)\<rparr>,
                     [ToastSuccess (if newWatchedState then ''Video marked as completed!''
                                    else ''Video marked as unwatched!'')])))
      in (s2\<lparr>completingVideoId := None\<rparr>, Fetch (VideoCompleteReq (video_id video)) # es))"

section \<open>Sample values\<close>

definition okResponse :: "'a \<Rightarrow> 'a fetched" where
  "okResponse body = Resolved (Response True 200 (Inr body))"

definition sampleCourse :: CourseInfo where
  "sampleCourse = \<lparr>course_id = ''c1'', course_title = ''Ultrasound basics'',
     course_description = ''Intro'', price = 100, instructor_name = ''A. Khan'',
     image_url = [], sections = []\<rparr>"

definition sampleEnv :: reconcile_env where
  "sampleEnv = \<lparr>courseFetch = okResponse sampleCourse,
     statusFetch = okResponse \<lparr>status = PENDING\<rparr>,
     paymentStatusFetch = okResponse ''pending'',
     enrolledFetch = okResponse [\<lparr>enrolled_id = ''c1'', enrolled_title = ''Ultrasound basics''\<rparr>]\<rparr>"

definition filledForm :: EnrollmentFormData where
  "filledForm = \<lparr>first_name = ''Ada'', last_name = ''Noor'', qualification = ''MBBS'',
     ultrasound_experience = ''2 years'', contact_number = ''0300'',
     qualification_certificate = Some (File ''cert.pdf'')\<rparr>"

definition sampleVideo :: Video where
  "sampleVideo = \<lparr>video_id = ''v1'', cloudinary_url = ''u'', video_title = ''Lesson 1'',
     video_description = [], watched = False\<rparr>"

section \<open>Properties of the reconciler\<close>

lemmas reconcile_defs =
  fetchCourseAndStatus_def loadCourse_def resolveStatus_def checkEnrolled_def
  checkPaymentProof_def

lemmas sample_defs = sampleEnv_def okResponse_def sampleCourse_def awaitHandled_def
  handleApiResponse_def initial_state_def

text \<open>
  The membership request is sent exactly when the course id is present and the course
  request succeeded: every other path has left the \<^verbatim>\<open>try\<close> block before.
\<close>

lemma issued_MyCourses_iff:
  "issued MyCoursesReq (fetchCourseAndStatus courseId env s) \<longleftrightarrow>
     (present courseId \<noteq> None \<and> (\<exists>c. awaitHandled (courseFetch env) = Inr c))"
  by (auto simp: issued_def reconcile_defs Let_def
      split: option.splits sum.splits prod.splits if_splits fetched.splits)

lemma find_enrolled:
  "c \<in> set cs \<Longrightarrow> enrolled_id c = cid \<Longrightarrow> find (\<lambda>c. enrolled_id c = cid) cs \<noteq> None"
  by (auto simp: find_None_iff)

lemma checkEnrolled_member:
  assumes "awaitHandled f = Inr cs" and "c \<in> set cs" and "enrolled_id c = cid"
  shows "isEnrolled (fst (checkEnrolled cid sr f s))"
    and "applicationStatus (fst (checkEnrolled cid sr f s)) =
           (if status sr = APPROVED then applicationStatus s else Some APPROVED)"
  using assms find_enrolled [of c cs cid]
  by (auto simp: checkEnrolled_def Let_def)

lemma checkPaymentProof_keeps:
  "applicationStatus (fst (checkPaymentProof cid f s)) = applicationStatus s"
  "isEnrolled (fst (checkPaymentProof cid f s)) = isEnrolled s"
  "error (fst (checkPaymentProof cid f s)) = error s"
  "course (fst (checkPaymentProof cid f s)) = course s"
  by (auto simp: checkPaymentProof_def Let_def split: fetched.splits sum.splits)

text \<open>
  Claim C1. Whatever the enrollment-status request and the payment-proof request gave:
  when the membership request was sent and succeeded with a list that has an entry whose
  id is the course id, the published state has \<open>applicationStatus = APPROVED\<close> and the
  enrollment flag set.
\<close>

theorem membership_promotes_to_approved:
  assumes "issued MyCoursesReq (fetchCourseAndStatus courseId env s)"
    and "awaitHandled (enrolledFetch env) = Inr enrolledCourses"
    and "c \<in> set enrolledCourses"
    and "courseId = Some (enrolled_id c)"
  shows "applicationStatus (fst (fetchCourseAndStatus courseId env s)) = Some APPROVED \<and>
         isEnrolled (fst (fetchCourseAndStatus courseId env s))"
proof -
  from assms(1) obtain cid ci where cid: "present courseId = Some cid"
    and ci: "awaitHandled (courseFetch env) = Inr ci"
    by (auto simp: issued_MyCourses_iff)
  from cid assms(4) have eq: "enrolled_id c = cid" by (auto split: if_splits)
  note m = checkEnrolled_member [OF assms(2) assms(3) eq]
  show ?thesis
    using cid ci
    by (simp add: fetchCourseAndStatus_def loadCourse_def Let_def case_prod_beta m
        checkPaymentProof_keeps)
qed

text \<open>The scenario of the specification: the status request says \<open>PENDING\<close>, the list has the course.\<close>

theorem membership_promotes_to_approved_witness:
  "issued MyCoursesReq (fetchCourseAndStatus (Some ''c1'') sampleEnv initial_state) \<and>
   statusFetch sampleEnv = okResponse \<lparr>status = PENDING\<rparr> \<and>
   applicationStatus (fst (fetchCourseAndStatus (Some ''c1'') sampleEnv initial_state)) = Some APPROVED \<and>
   isEnrolled (fst (fetchCourseAndStatus (Some ''c1'') sampleEnv initial_state))"
proof -
  let ?c = "\<lparr>enrolled_id = ''c1'', enrolled_title = ''Ultrasound basics''\<rparr>"
  have h1: "issued MyCoursesReq (fetchCourseAndStatus (Some ''c1'') sampleEnv initial_state)"
    by (simp add: issued_def reconcile_defs sample_defs Let_def)
  have h2: "awaitHandled (enrolledFetch sampleEnv) = Inr [?c]"
    by (simp add: sample_defs)
  have h3: "?c \<in> set [?c]" by simp
  have h4: "Some ''c1'' = Some (enrolled_id ?c)" by simp
  have h5: "statusFetch sampleEnv = okResponse \<lparr>status = PENDING\<rparr>" by (simp add: sampleEnv_def)
  show ?thesis using membership_promotes_to_approved [OF h1 h2 h3 h4] h1 h5 by simp
qed

text \<open>
  Claim C2, as stated: an authorization failure of any of the four requests redirects to
  the login page. It fails for the membership request: the request is sent, rejects with
  an \<^verbatim>\<open>UnauthorizedError\<close>, is caught by the inner \<^verbatim>\<open>catch\<close>, and nothing navigates.
\<close>

theorem secondary_unauthorized_redirects_counterexample:
  "issued MyCoursesReq
     (fetchCourseAndStatus (Some ''c1'')
        (sampleEnv\<lparr>enrolledFetch := Rejected (UnauthorizedError ''401'')\<rparr>) initial_state) \<and>
   isUnauthorized (UnauthorizedError ''401'') \<and>
   navigations
     (fetchCourseAndStatus (Some ''c1'')
        (sampleEnv\<lparr>enrolledFetch := Rejected (UnauthorizedError ''401'')\<rparr>) initial_state) = []"
  by (simp add: issued_def navigations_def reconcile_defs sample_defs Let_def)

lemma navigations_checkPaymentProof: "filter isNavigate (snd (checkPaymentProof cid f s)) = []"
  by (simp add: checkPaymentProof_def Let_def split: fetched.splits sum.splits)

lemma navigations_checkEnrolled: "filter isNavigate (snd (checkEnrolled cid sr f s)) = []"
  by (simp add: checkEnrolled_def Let_def split: sum.splits)

lemma navigations_resolveStatus: "filter isNavigate (snd (resolveStatus f)) = []"
  by (simp add: resolveStatus_def split: sum.splits)

lemma navigations_loadCourse:
  "filter isNavigate (snd (loadCourse cid sr env s)) =
     (if courseUnauthorized env then [Navigate ''/login''] else [])"
  by (simp add: loadCourse_def courseUnauthorized_def Let_def case_prod_beta
      navigations_checkPaymentProof navigations_checkEnrolled split: sum.splits)

text \<open>What the three inner \<^verbatim>\<open>catch\<close> blocks leave behind, for any thrown value.\<close>

lemma status_failure_state:
  assumes "awaitHandled (statusFetch env) = Inl err"
  shows "fst (resolveStatus (statusFetch env)) = \<lparr>status = NOT_APPLIED\<rparr>"
    and "fst (fetchCourseAndStatus courseId env s) =
           fst (fetchCourseAndStatus courseId
                  (env\<lparr>statusFetch := okResponse \<lparr>status = NOT_APPLIED\<rparr>\<rparr>) s)"
  using assms
  by (auto simp: reconcile_defs okResponse_def awaitHandled_def handleApiResponse_def Let_def
      split: option.splits sum.splits fetched.splits)

lemma checkPaymentProof_failure:
  assumes "f = Rejected err \<or> (\<exists>r. f = Resolved r \<and> ok r \<and> handleApiResponse r = Inl err)"
  shows "fst (checkPaymentProof cid f s) = s\<lparr>paymentSubmitted := False, paymentPending := False\<rparr>"
  using assms by (auto simp: checkPaymentProof_def Let_def)

lemma checkPaymentProof_404:
  "fst (checkPaymentProof cid (Resolved (Response False 404 x)) s) =
     s\<lparr>paymentSubmitted := False, paymentPending := False\<rparr>"
  by (simp add: checkPaymentProof_def Let_def)

lemma checkEnrolled_keeps_payment:
  "paymentSubmitted (fst (checkEnrolled cid sr f s)) = paymentSubmitted s"
  "paymentPending (fst (checkEnrolled cid sr f s)) = paymentPending s"
  by (simp_all add: checkEnrolled_def Let_def split: sum.splits)

lemma payment_failure_state:
  assumes "paymentStatusFetch env = Rejected err \<or>
           (\<exists>r. paymentStatusFetch env = Resolved r \<and> ok r \<and> handleApiResponse r = Inl err)"
  shows "fst (fetchCourseAndStatus courseId env s) =
           fst (fetchCourseAndStatus courseId
                  (env\<lparr>paymentStatusFetch := Resolved (Response False 404 (Inl err))\<rparr>) s)"
    and "issued (PaymentProofStatusReq cid) (fetchCourseAndStatus courseId env s) \<Longrightarrow>
           \<not> paymentSubmitted (fst (fetchCourseAndStatus courseId env s)) \<and>
           \<not> paymentPending (fst (fetchCourseAndStatus courseId env s))"
proof -
  note pf = checkPaymentProof_failure [OF assms]
  show "fst (fetchCourseAndStatus courseId env s) =
           fst (fetchCourseAndStatus courseId
                  (env\<lparr>paymentStatusFetch := Resolved (Response False 404 (Inl err))\<rparr>) s)"
    by (simp add: fetchCourseAndStatus_def loadCourse_def Let_def case_prod_beta pf
        checkPaymentProof_404 split: option.splits sum.splits)
  assume "issued (PaymentProofStatusReq cid) (fetchCourseAndStatus courseId env s)"
  then show "\<not> paymentSubmitted (fst (fetchCourseAndStatus courseId env s)) \<and>
           \<not> paymentPending (fst (fetchCourseAndStatus courseId env s))"
    by (auto simp: issued_def fetchCourseAndStatus_def loadCourse_def Let_def case_prod_beta pf
        checkEnrolled_keeps_payment resolveStatus_def checkEnrolled_def
        split: option.splits sum.splits if_splits)
qed

lemma membership_failure_state:
  assumes "awaitHandled (enrolledFetch env) = Inl err"
  shows "isEnrolled (fst (fetchCourseAndStatus courseId env s)) = isEnrolled s"
    and "issued MyCoursesReq (fetchCourseAndStatus courseId env s) \<Longrightarrow>
           applicationStatus (fst (fetchCourseAndStatus courseId env s)) =
             Some (status (fst (resolveStatus (statusFetch env)))) \<and>
           error (fst (fetchCourseAndStatus courseId env s)) = error s"
proof -
  have ce: "fst (checkEnrolled cid sr (enrolledFetch env) s') = s'" for cid sr s'
    using assms by (simp add: checkEnrolled_def)
  show "isEnrolled (fst (fetchCourseAndStatus courseId env s)) = isEnrolled s"
    by (simp add: fetchCourseAndStatus_def loadCourse_def Let_def case_prod_beta ce
        checkPaymentProof_keeps split: option.splits sum.splits)
  assume "issued MyCoursesReq (fetchCourseAndStatus courseId env s)"
  then obtain cid ci where "present courseId = Some cid" "awaitHandled (courseFetch env) = Inr ci"
    by (auto simp: issued_MyCourses_iff)
  then show "applicationStatus (fst (fetchCourseAndStatus courseId env s)) =
             Some (status (fst (resolveStatus (statusFetch env)))) \<and>
           error (fst (fetchCourseAndStatus courseId env s)) = error s"
    by (simp add: fetchCourseAndStatus_def loadCourse_def Let_def case_prod_beta ce
        checkPaymentProof_keeps)
qed

text \<open>
  Claim C2, amended. The reconciler navigates to \<^verbatim>\<open>/login\<close> exactly once when the course id
  is present and the course request fails with an authorization failure, and never
  otherwise; what the enrollment-status, payment-proof-status and membership requests give
  has no influence on navigation. A failure of one of these three, an authorization
  failure included, is caught on the spot: a failed enrollment-status request resolves to
  \<open>NOT_APPLIED\<close> and the run publishes what a run answered \<open>NOT_APPLIED\<close> publishes; a
  failed payment-proof-status request publishes what a 404 answer publishes, both payment
  flags false; a failed membership request leaves the enrollment flag as it was and the
  application status as the enrollment-status request resolved it. The login redirect is
  the only navigation the reconciler performs.
\<close>

theorem login_redirect_only_from_course:
  "navigations (fetchCourseAndStatus courseId env s) =
     (if present courseId \<noteq> None \<and> courseUnauthorized env then [Navigate ''/login''] else []) \<and>
   navigations (fetchCourseAndStatus courseId
       (env\<lparr>statusFetch := sf, paymentStatusFetch := pf, enrolledFetch := mf\<rparr>) s) =
     navigations (fetchCourseAndStatus courseId env s) \<and>
   (awaitHandled (statusFetch env) = Inl es \<longrightarrow>
      fst (resolveStatus (statusFetch env)) = \<lparr>status = NOT_APPLIED\<rparr> \<and>
      fst (fetchCourseAndStatus courseId env s) =
        fst (fetchCourseAndStatus courseId
               (env\<lparr>statusFetch := okResponse \<lparr>status = NOT_APPLIED\<rparr>\<rparr>) s)) \<and>
   (paymentStatusFetch env = Rejected ep \<or>
    (\<exists>r. paymentStatusFetch env = Resolved r \<and> ok r \<and> handleApiResponse r = Inl ep) \<longrightarrow>
      fst (fetchCourseAndStatus courseId env s) =
        fst (fetchCourseAndStatus courseId
               (env\<lparr>paymentStatusFetch := Resolved (Response False 404 (Inl ep))\<rparr>) s) \<and>
      (\<forall>cid. issued (PaymentProofStatusReq cid) (fetchCourseAndStatus courseId env s) \<longrightarrow>
         \<not> paymentSubmitted (fst (fetchCourseAndStatus courseId env s)) \<and> \<not> paymentPending (fst (fetchCourseAndStatus courseId env s)))) \<and>
   (awaitHandled (enrolledFetch env) = Inl em \<longrightarrow>
      isEnrolled (fst (fetchCourseAndStatus courseId env s)) = isEnrolled s \<and>
      (issued MyCoursesReq (fetchCourseAndStatus courseId env s) \<longrightarrow>
         applicationStatus (fst (fetchCourseAndStatus courseId env s)) = Some (status (fst (resolveStatus (statusFetch env)))) \<and>
         error (fst (fetchCourseAndStatus courseId env s)) = error s))"
proof (intro conjI impI allI)
  show "navigations (fetchCourseAndStatus courseId env s) =
     (if present courseId \<noteq> None \<and> courseUnauthorized env then [Navigate ''/login''] else [])"
    by (simp add: navigations_def fetchCourseAndStatus_def Let_def case_prod_beta
        navigations_loadCourse navigations_resolveStatus split: option.splits)
  show "navigations (fetchCourseAndStatus courseId
       (env\<lparr>statusFetch := sf, paymentStatusFetch := pf, enrolledFetch := mf\<rparr>) s) =
     navigations (fetchCourseAndStatus courseId env s)"
    by (simp add: navigations_def fetchCourseAndStatus_def Let_def case_prod_beta
        navigations_loadCourse navigations_resolveStatus courseUnauthorized_def
        split: option.splits)
next
  assume h: "awaitHandled (statusFetch env) = Inl es"
  show "fst (resolveStatus (statusFetch env)) = \<lparr>status = NOT_APPLIED\<rparr>"
    by (rule status_failure_state(1) [OF h])
  show "fst (fetchCourseAndStatus courseId env s) =
        fst (fetchCourseAndStatus courseId
               (env\<lparr>statusFetch := okResponse \<lparr>status = NOT_APPLIED\<rparr>\<rparr>) s)"
    by (rule status_failure_state(2) [OF h])
next
  assume h: "paymentStatusFetch env = Rejected ep \<or>
    (\<exists>r. paymentStatusFetch env = Resolved r \<and> ok r \<and> handleApiResponse r = Inl ep)"
  show "fst (fetchCourseAndStatus courseId env s) =
        fst (fetchCourseAndStatus courseId
               (env\<lparr>paymentStatusFetch := Resolved (Response False 404 (Inl ep))\<rparr>) s)"
    by (rule payment_failure_state(1) [OF h])
  fix cid assume i: "issued (PaymentProofStatusReq cid) (fetchCourseAndStatus courseId env s)"
  from payment_failure_state(2) [OF h i]
  show "\<not> paymentSubmitted (fst (fetchCourseAndStatus courseId env s))" and "\<not> paymentPending (fst (fetchCourseAndStatus courseId env s))"
    by simp_all
next
  assume h: "awaitHandled (enrolledFetch env) = Inl em"
  show "isEnrolled (fst (fetchCourseAndStatus courseId env s)) = isEnrolled s"
    by (rule membership_failure_state(1) [OF h])
  assume i: "issued MyCoursesReq (fetchCourseAndStatus courseId env s)"
  from membership_failure_state(2) [OF h i]
  show "applicationStatus (fst (fetchCourseAndStatus courseId env s)) = Some (status (fst (resolveStatus (statusFetch env))))"
    and "error (fst (fetchCourseAndStatus courseId env s)) = error s"
    by simp_all
qed

text \<open>
  Three runs: the course request unauthorized; the enrollment-status request unauthorized;
  the payment-proof-status and membership requests unauthorized, from a state that had
  the payment flags set.
\<close>

theorem login_redirect_only_from_course_witness:
  "navigations (fetchCourseAndStatus (Some ''c1'') (sampleEnv\<lparr>courseFetch := Rejected (UnauthorizedError ''401'')\<rparr>) initial_state) = [Navigate ''/login''] \<and>
   awaitHandled (statusFetch (sampleEnv\<lparr>statusFetch := Rejected (UnauthorizedError ''401'')\<rparr>)) = Inl (UnauthorizedError ''401'') \<and>
   navigations (fetchCourseAndStatus (Some ''c1'') (sampleEnv\<lparr>statusFetch := Rejected (UnauthorizedError ''401'')\<rparr>) initial_state) = [] \<and>
   fst (resolveStatus (statusFetch (sampleEnv\<lparr>statusFetch := Rejected (UnauthorizedError ''401'')\<rparr>))) = \<lparr>status = NOT_APPLIED\<rparr> \<and>
   issued (PaymentProofStatusReq ''c1'') (fetchCourseAndStatus (Some ''c1'') (sampleEnv\<lparr>statusFetch := okResponse \<lparr>status = APPROVED\<rparr>, paymentStatusFetch := Rejected (UnauthorizedError ''401''), enrolledFetch := Rejected (UnauthorizedError ''401'')\<rparr>) (initial_state\<lparr>paymentSubmitted := True, paymentPending := True\<rparr>)) \<and>
   issued MyCoursesReq (fetchCourseAndStatus (Some ''c1'') (sampleEnv\<lparr>statusFetch := okResponse \<lparr>status = APPROVED\<rparr>, paymentStatusFetch := Rejected (UnauthorizedError ''401''), enrolledFetch := Rejected (UnauthorizedError ''401'')\<rparr>) (initial_state\<lparr>paymentSubmitted := True, paymentPending := True\<rparr>)) \<and>
   navigations (fetchCourseAndStatus (Some ''c1'') (sampleEnv\<lparr>statusFetch := okResponse \<lparr>status = APPROVED\<rparr>, paymentStatusFetch := Rejected (UnauthorizedError ''401''), enrolledFetch := Rejected (UnauthorizedError ''401'')\<rparr>) (initial_state\<lparr>paymentSubmitted := True, paymentPending := True\<rparr>)) = [] \<and>
   \<not> paymentSubmitted (fst (fetchCourseAndStatus (Some ''c1'') (sampleEnv\<lparr>statusFetch := okResponse \<lparr>status = APPROVED\<rparr>, paymentStatusFetch := Rejected (UnauthorizedError ''401''), enrolledFetch := Rejected (UnauthorizedError ''401'')\<rparr>) (initial_state\<lparr>paymentSubmitted := True, paymentPending := True\<rparr>))) \<and>
   \<not> paymentPending (fst (fetchCourseAndStatus (Some ''c1'') (sampleEnv\<lparr>statusFetch := okResponse \<lparr>status = APPROVED\<rparr>, paymentStatusFetch := Rejected (UnauthorizedError ''401''), enrolledFetch := Rejected (UnauthorizedError ''401'')\<rparr>) (initial_state\<lparr>paymentSubmitted := True, paymentPending := True\<rparr>))) \<and>
   \<not> isEnrolled (fst (fetchCourseAndStatus (Some ''c1'') (sampleEnv\<lparr>statusFetch := okResponse \<lparr>status = APPROVED\<rparr>, paymentStatusFetch := Rejected (UnauthorizedError ''401''), enrolledFetch := Rejected (UnauthorizedError ''401'')\<rparr>) (initial_state\<lparr>paymentSubmitted := True, paymentPending := True\<rparr>))) \<and>
   applicationStatus (fst (fetchCourseAndStatus (Some ''c1'') (sampleEnv\<lparr>statusFetch := okResponse \<lparr>status = APPROVED\<rparr>, paymentStatusFetch := Rejected (UnauthorizedError ''401''), enrolledFetch := Rejected (UnauthorizedError ''401'')\<rparr>) (initial_state\<lparr>paymentSubmitted := True, paymentPending := True\<rparr>))) = Some APPROVED"
proof -
  let ?u = "UnauthorizedError ''401''"
  let ?envC = "(sampleEnv\<lparr>courseFetch := Rejected (UnauthorizedError ''401'')\<rparr>)"
  let ?envA = "(sampleEnv\<lparr>statusFetch := Rejected (UnauthorizedError ''401'')\<rparr>)"
  let ?envB = "(sampleEnv\<lparr>statusFetch := okResponse \<lparr>status = APPROVED\<rparr>, paymentStatusFetch := Rejected (UnauthorizedError ''401''), enrolledFetch := Rejected (UnauthorizedError ''401'')\<rparr>)"
  let ?sB = "(initial_state\<lparr>paymentSubmitted := True, paymentPending := True\<rparr>)"
  have cu: "courseUnauthorized ?envC" "\<not> courseUnauthorized ?envA" "\<not> courseUnauthorized ?envB"
    by (simp_all add: courseUnauthorized_def sample_defs)
  have p: "present (Some ''c1'') \<noteq> None" by simp
  have sa: "awaitHandled (statusFetch ?envA) = Inl ?u" by (simp add: awaitHandled_def)
  have pb: "paymentStatusFetch ?envB = Rejected ?u \<or>
      (\<exists>r. paymentStatusFetch ?envB = Resolved r \<and> ok r \<and> handleApiResponse r = Inl ?u)"
    by simp
  have mb: "awaitHandled (enrolledFetch ?envB) = Inl ?u" by (simp add: awaitHandled_def)
  have ip: "issued (PaymentProofStatusReq ''c1'') (fetchCourseAndStatus (Some ''c1'') ?envB ?sB)"
    by (simp add: issued_def reconcile_defs sample_defs Let_def)
  have im: "issued MyCoursesReq (fetchCourseAndStatus (Some ''c1'') ?envB ?sB)"
    by (simp add: issued_MyCourses_iff sample_defs)
  have rs: "status (fst (resolveStatus (statusFetch ?envB))) = APPROVED"
    by (simp add: resolveStatus_def sample_defs)
  have en: "\<not> isEnrolled ?sB" by (simp add: initial_state_def)
  note TC = login_redirect_only_from_course [where courseId = "Some ''c1''" and env = ?envC and s = initial_state
      and sf = "statusFetch ?envC" and pf = "paymentStatusFetch ?envC" and mf = "enrolledFetch ?envC"
      and es = ?u and ep = ?u and em = ?u]
  note TA = login_redirect_only_from_course [where courseId = "Some ''c1''" and env = ?envA and s = initial_state
      and sf = "statusFetch ?envA" and pf = "paymentStatusFetch ?envA" and mf = "enrolledFetch ?envA"
      and es = ?u and ep = ?u and em = ?u]
  note TB = login_redirect_only_from_course [where courseId = "Some ''c1''" and env = ?envB and s = ?sB
      and sf = "statusFetch ?envB" and pf = "paymentStatusFetch ?envB" and mf = "enrolledFetch ?envB"
      and es = ?u and ep = ?u and em = ?u]
  have c1: "navigations (fetchCourseAndStatus (Some ''c1'') ?envC initial_state) = [Navigate ''/login'']"
    using TC [THEN conjunct1] cu(1) p by simp
  have a1: "navigations (fetchCourseAndStatus (Some ''c1'') ?envA initial_state) = []"
    using TA [THEN conjunct1] cu(2) by simp
  have a2: "fst (resolveStatus (statusFetch ?envA)) = \<lparr>status = NOT_APPLIED\<rparr>"
    using TA [THEN conjunct2, THEN conjunct2, THEN conjunct1] sa by simp
  have b1: "navigations (fetchCourseAndStatus (Some ''c1'') ?envB ?sB) = []"
    using TB [THEN conjunct1] cu(3) by simp
  have b2: "\<not> paymentSubmitted (fst (fetchCourseAndStatus (Some ''c1'') ?envB ?sB)) \<and>
            \<not> paymentPending (fst (fetchCourseAndStatus (Some ''c1'') ?envB ?sB))"
    using TB [THEN conjunct2, THEN conjunct2, THEN conjunct2, THEN conjunct1] pb ip by blast
  have b3: "\<not> isEnrolled (fst (fetchCourseAndStatus (Some ''c1'') ?envB ?sB)) \<and>
            applicationStatus (fst (fetchCourseAndStatus (Some ''c1'') ?envB ?sB)) = Some APPROVED"
    using TB [THEN conjunct2, THEN conjunct2, THEN conjunct2, THEN conjunct2] mb im rs en by simp
  show ?thesis using c1 sa a1 a2 ip im b1 b2 b3 by simp
qed

text \<open>
  Claim C3. When the course request is sent and fails: with an authorization error there
  is exactly one navigation, to the login page, and the page-level error is what it was
  (unset, from the initial state); with any other error the page-level error is set and
  nothing navigates.
\<close>

theorem course_failure_redirect_or_error:
  assumes "present courseId = Some cid"
    and "awaitHandled (courseFetch env) = Inl err"
  shows "(isUnauthorized err \<longrightarrow>
            navigations (fetchCourseAndStatus courseId env s) = [Navigate ''/login''] \<and>
            error (fst (fetchCourseAndStatus courseId env s)) = error s) \<and>
         (\<not> isUnauthorized err \<longrightarrow>
            error (fst (fetchCourseAndStatus courseId env s)) =
              Some ''Failed to load course details. Please try again later.'' \<and>
            navigations (fetchCourseAndStatus courseId env s) = [])"
  using assms
  by (simp add: navigations_def fetchCourseAndStatus_def loadCourse_def resolveStatus_def
      Let_def case_prod_beta split: sum.splits)

theorem course_failure_redirect_or_error_witness:
  "navigations (fetchCourseAndStatus (Some ''c1'')
      (sampleEnv\<lparr>courseFetch := Rejected (UnauthorizedError ''401'')\<rparr>) initial_state) =
     [Navigate ''/login''] \<and>
   error (fst (fetchCourseAndStatus (Some ''c1'')
      (sampleEnv\<lparr>courseFetch := Rejected (UnauthorizedError ''401'')\<rparr>) initial_state)) = None \<and>
   error (fst (fetchCourseAndStatus (Some ''c1'')
      (sampleEnv\<lparr>courseFetch := Rejected (OtherError ''500'')\<rparr>) initial_state)) =
     Some ''Failed to load course details. Please try again later.'' \<and>
   navigations (fetchCourseAndStatus (Some ''c1'')
      (sampleEnv\<lparr>courseFetch := Rejected (OtherError ''500'')\<rparr>) initial_state) = []"
proof -
  have p: "present (Some ''c1'') = Some ''c1''" by simp
  have a: "awaitHandled (courseFetch (sampleEnv\<lparr>courseFetch := Rejected (UnauthorizedError ''401'')\<rparr>))
             = Inl (UnauthorizedError ''401'')"
    by (simp add: awaitHandled_def)
  have b: "awaitHandled (courseFetch (sampleEnv\<lparr>courseFetch := Rejected (OtherError ''500'')\<rparr>))
             = Inl (OtherError ''500'')"
    by (simp add: awaitHandled_def)
  show ?thesis
    using course_failure_redirect_or_error [OF p a, of initial_state] course_failure_redirect_or_error [OF p b, of initial_state]
    by (simp add: initial_state_def)
qed

text \<open>
  Claim C7. When the status resolved from the enrollment-status request (its
  \<open>NOT_APPLIED\<close> fallback included) is not \<open>APPROVED\<close>, no payment-proof-status request
  is sent, for any course id.
\<close>

theorem no_payment_check_unless_approved:
  assumes "status (fst (resolveStatus (statusFetch env))) \<noteq> APPROVED"
  shows "\<not> issued (PaymentProofStatusReq c) (fetchCourseAndStatus courseId env s)"
  using assms
  by (auto simp: issued_def fetchCourseAndStatus_def loadCourse_def checkEnrolled_def
      resolveStatus_def Let_def case_prod_beta split: option.splits sum.splits if_splits)

theorem no_payment_check_unless_approved_witness:
  "status (fst (resolveStatus (statusFetch sampleEnv))) = PENDING \<and>
   \<not> issued (PaymentProofStatusReq ''c1'') (fetchCourseAndStatus (Some ''c1'') sampleEnv initial_state) \<and>
   issued MyCoursesReq (fetchCourseAndStatus (Some ''c1'') sampleEnv initial_state)"
proof -
  have h: "status (fst (resolveStatus (statusFetch sampleEnv))) = PENDING"
    by (simp add: resolveStatus_def sample_defs)
  then have n: "status (fst (resolveStatus (statusFetch sampleEnv))) \<noteq> APPROVED" by simp
  have m: "issued MyCoursesReq (fetchCourseAndStatus (Some ''c1'') sampleEnv initial_state)"
    by (simp add: issued_def reconcile_defs sample_defs Let_def)
  show ?thesis using no_payment_check_unless_approved [OF n, of "''c1''" "Some ''c1''" initial_state] h m by simp
qed

text \<open>
  Claim C8. When the enrollment-status request fails with anything but an authorization
  failure, the resolved status is \<open>NOT_APPLIED\<close> and the flow goes on: the published state
  is the one of a run in which the request answered \<open>NOT_APPLIED\<close>, and when the course
  request succeeds the page-level error is untouched, nothing navigates, the course is
  stored and the membership request is still sent.
\<close>

theorem status_failure_falls_back:
  assumes "awaitHandled (statusFetch env) = Inl err" and "\<not> isUnauthorized err"
  shows "fst (resolveStatus (statusFetch env)) = \<lparr>status = NOT_APPLIED\<rparr> \<and>
         fst (fetchCourseAndStatus courseId env s) =
           fst (fetchCourseAndStatus courseId (env\<lparr>statusFetch := okResponse \<lparr>status = NOT_APPLIED\<rparr>\<rparr>) s) \<and>
         (\<forall>cid c. present courseId = Some cid \<and> awaitHandled (courseFetch env) = Inr c \<longrightarrow>
            error (fst (fetchCourseAndStatus courseId env s)) = error s \<and>
            course (fst (fetchCourseAndStatus courseId env s)) = Some c \<and>
            navigations (fetchCourseAndStatus courseId env s) = [] \<and>
            issued MyCoursesReq (fetchCourseAndStatus courseId env s) \<and>
            applicationStatus (fst (fetchCourseAndStatus courseId env s)) \<in> {Some NOT_APPLIED, Some APPROVED})"
  using assms
  by (auto simp: issued_def navigations_def reconcile_defs okResponse_def awaitHandled_def handleApiResponse_def Let_def
      split: option.splits sum.splits fetched.splits)

theorem status_failure_falls_back_witness:
  "awaitHandled (statusFetch (sampleEnv\<lparr>statusFetch := Rejected (OtherError ''503'')\<rparr>)) =
     Inl (OtherError ''503'') \<and>
   fst (fetchCourseAndStatus (Some ''c9'') (sampleEnv\<lparr>statusFetch := Rejected (OtherError ''503'')\<rparr>)
          initial_state) =
     initial_state\<lparr>course := Some sampleCourse, applicationStatus := Some NOT_APPLIED,
        isLoading := False\<rparr> \<and>
   issued MyCoursesReq
     (fetchCourseAndStatus (Some ''c9'') (sampleEnv\<lparr>statusFetch := Rejected (OtherError ''503'')\<rparr>)
        initial_state)"
proof -
  let ?env = "sampleEnv\<lparr>statusFetch := Rejected (OtherError ''503'')\<rparr>"
  have a: "awaitHandled (statusFetch ?env) = Inl (OtherError ''503'')"
    by (simp add: awaitHandled_def)
  have n: "\<not> isUnauthorized (OtherError ''503'')" by simp
  have p: "present (Some ''c9'') = Some ''c9''" by simp
  have c: "awaitHandled (courseFetch ?env) = Inr sampleCourse"
    by (simp add: sampleEnv_def okResponse_def awaitHandled_def handleApiResponse_def)
  have v: "fst (fetchCourseAndStatus (Some ''c9'') ?env initial_state) =
     initial_state\<lparr>course := Some sampleCourse, applicationStatus := Some NOT_APPLIED,
        isLoading := False\<rparr>"
    by (simp add: reconcile_defs sample_defs Let_def)
  show ?thesis
    using status_failure_falls_back [OF a n, of "Some ''c9''" initial_state] a p c v by simp
qed

text \<open>
  Claim C9. Enrollment status \<open>APPROVED\<close>, payment-proof status answered with 404, and
  an empty membership list: the published state has \<open>applicationStatus = APPROVED\<close>, both
  payment flags false and the enrollment flag false.
\<close>

theorem approved_unpaid_scenario:
  assumes "present courseId = Some cid"
    and "issued MyCoursesReq (fetchCourseAndStatus courseId env s)"
    and "awaitHandled (statusFetch env) = Inr \<lparr>status = APPROVED\<rparr>"
    and "paymentStatusFetch env = Resolved r" and "\<not> ok r" and "http_status r = 404"
    and "awaitHandled (enrolledFetch env) = Inr []"
  shows "issued (PaymentProofStatusReq cid) (fetchCourseAndStatus courseId env s) \<and>
         applicationStatus (fst (fetchCourseAndStatus courseId env s)) = Some APPROVED \<and>
         \<not> paymentSubmitted (fst (fetchCourseAndStatus courseId env s)) \<and>
         \<not> paymentPending (fst (fetchCourseAndStatus courseId env s)) \<and>
         \<not> isEnrolled (fst (fetchCourseAndStatus courseId env s))"
proof -
  from assms(2) obtain ci where ci: "awaitHandled (courseFetch env) = Inr ci"
    by (auto simp: issued_MyCourses_iff)
  show ?thesis
    using assms(1,3-7) ci
    by (simp add: issued_def reconcile_defs Let_def)
qed

text \<open>The flags are reset even from a state that had them set.\<close>

theorem approved_unpaid_scenario_witness:
  "issued MyCoursesReq (fetchCourseAndStatus (Some ''c1'')
      (sampleEnv\<lparr>statusFetch := okResponse \<lparr>status = APPROVED\<rparr>,
                 paymentStatusFetch := Resolved (Response False 404 (Inl (OtherError ''Not found''))),
                 enrolledFetch := okResponse []\<rparr>)
      (initial_state\<lparr>paymentSubmitted := True, paymentPending := True\<rparr>)) \<and>
   issued (PaymentProofStatusReq ''c1'') (fetchCourseAndStatus (Some ''c1'')
      (sampleEnv\<lparr>statusFetch := okResponse \<lparr>status = APPROVED\<rparr>,
                 paymentStatusFetch := Resolved (Response False 404 (Inl (OtherError ''Not found''))),
                 enrolledFetch := okResponse []\<rparr>)
      (initial_state\<lparr>paymentSubmitted := True, paymentPending := True\<rparr>)) \<and>
   applicationStatus (fst (fetchCourseAndStatus (Some ''c1'')
      (sampleEnv\<lparr>statusFetch := okResponse \<lparr>status = APPROVED\<rparr>,
                 paymentStatusFetch := Resolved (Response False 404 (Inl (OtherError ''Not found''))),
                 enrolledFetch := okResponse []\<rparr>)
      (initial_state\<lparr>paymentSubmitted := True, paymentPending := True\<rparr>))) = Some APPROVED \<and>
   \<not> paymentSubmitted (fst (fetchCourseAndStatus (Some ''c1'')
      (sampleEnv\<lparr>statusFetch := okResponse \<lparr>status = APPROVED\<rparr>,
                 paymentStatusFetch := Resolved (Response False 404 (Inl (OtherError ''Not found''))),
                 enrolledFetch := okResponse []\<rparr>)
      (initial_state\<lparr>paymentSubmitted := True, paymentPending := True\<rparr>))) \<and>
   \<not> paymentPending (fst (fetchCourseAndStatus (Some ''c1'')
      (sampleEnv\<lparr>statusFetch := okResponse \<lparr>status = APPROVED\<rparr>,
                 paymentStatusFetch := Resolved (Response False 404 (Inl (OtherError ''Not found''))),
                 enrolledFetch := okResponse []\<rparr>)
      (initial_state\<lparr>paymentSubmitted := True, paymentPending := True\<rparr>))) \<and>
   \<not> isEnrolled (fst (fetchCourseAndStatus (Some ''c1'')
      (sampleEnv\<lparr>statusFetch := okResponse \<lparr>status = APPROVED\<rparr>,
                 paymentStatusFetch := Resolved (Response False 404 (Inl (OtherError ''Not found''))),
                 enrolledFetch := okResponse []\<rparr>)
      (initial_state\<lparr>paymentSubmitted := True, paymentPending := True\<rparr>)))"
proof -
  let ?r = "Response False 404 (Inl (OtherError ''Not found'')) :: string response"
  let ?env = "sampleEnv\<lparr>statusFetch := okResponse \<lparr>status = APPROVED\<rparr>,
                 paymentStatusFetch := Resolved ?r, enrolledFetch := okResponse []\<rparr>"
  let ?s = "initial_state\<lparr>paymentSubmitted := True, paymentPending := True\<rparr>"
  have p: "present (Some ''c1'') = Some ''c1''" by simp
  have i: "issued MyCoursesReq (fetchCourseAndStatus (Some ''c1'') ?env ?s)"
    by (simp add: issued_MyCourses_iff sample_defs)
  have a: "awaitHandled (statusFetch ?env) = Inr \<lparr>status = APPROVED\<rparr>"
    by (simp add: awaitHandled_def okResponse_def handleApiResponse_def)
  have f: "paymentStatusFetch ?env = Resolved ?r" by simp
  have o: "\<not> ok ?r" by simp
  have h: "http_status ?r = 404" by simp
  have m: "awaitHandled (enrolledFetch ?env) = Inr []"
    by (simp add: awaitHandled_def okResponse_def handleApiResponse_def)
  show ?thesis using approved_unpaid_scenario [OF p i a f o h m] i by simp
qed

section \<open>Properties of the submission handlers\<close>

text \<open>
  Claim C4, as stated: every missing requirement has a rejection reason of its own. It
  fails: a form that lacks only the first name and a form that lacks only the last name
  are rejected with the same message.
\<close>

theorem field_specific_rejection_counterexample:
  "first_name (filledForm\<lparr>first_name := []\<rparr>) = [] \<and>
   last_name (filledForm\<lparr>first_name := []\<rparr>) \<noteq> [] \<and>
   last_name (filledForm\<lparr>last_name := []\<rparr>) = [] \<and>
   first_name (filledForm\<lparr>last_name := []\<rparr>) \<noteq> [] \<and>
   snd (handleFormSubmit (Some ''c1'') (okResponse ())
          (initial_state\<lparr>enrollmentForm := filledForm\<lparr>first_name := []\<rparr>\<rparr>)) =
     [PreventDefault, ToastError ''Please fill in all required fields.''] \<and>
   snd (handleFormSubmit (Some ''c1'') (okResponse ())
          (initial_state\<lparr>enrollmentForm := filledForm\<lparr>last_name := []\<rparr>\<rparr>)) =
     [PreventDefault, ToastError ''Please fill in all required fields.'']"
  by (simp add: handleFormSubmit_def requiredFieldEmpty_def filledForm_def initial_state_def)

text \<open>
  Claim C4, amended. When one of the five textual fields is empty or no certificate is
  attached, submitting sends no request and leaves the whole state unchanged. With a
  course id present the user sees one message shared by the five textual fields when any of
  them is empty, and otherwise the message about the certificate; without a course id
  nothing is shown.
\<close>

theorem incomplete_application_rejected_locally:
  assumes "first_name (enrollmentForm s) = [] \<or> last_name (enrollmentForm s) = [] \<or>
           qualification (enrollmentForm s) = [] \<or> ultrasound_experience (enrollmentForm s) = [] \<or>
           contact_number (enrollmentForm s) = [] \<or>
           qualification_certificate (enrollmentForm s) = None"
  shows "fst (handleFormSubmit courseId submit s) = s \<and>
         filter isFetch (snd (handleFormSubmit courseId submit s)) = [] \<and>
         snd (handleFormSubmit courseId submit s) =
           (if present courseId = None then [PreventDefault]
            else if first_name (enrollmentForm s) = [] \<or> last_name (enrollmentForm s) = [] \<or>
                    qualification (enrollmentForm s) = [] \<or>
                    ultrasound_experience (enrollmentForm s) = [] \<or>
                    contact_number (enrollmentForm s) = []
              then [PreventDefault, ToastError ''Please fill in all required fields.'']
              else [PreventDefault, ToastError ''Please upload your qualification certificate.''])"
  using assms
  by (auto simp: handleFormSubmit_def requiredFieldEmpty_def split: option.splits)

theorem incomplete_application_rejected_locally_witness:
  "qualification_certificate (filledForm\<lparr>qualification_certificate := None\<rparr>) = None \<and>
   handleFormSubmit (Some ''c1'') (okResponse ())
      (initial_state\<lparr>enrollmentForm := filledForm\<lparr>qualification_certificate := None\<rparr>\<rparr>) =
     (initial_state\<lparr>enrollmentForm := filledForm\<lparr>qualification_certificate := None\<rparr>\<rparr>,
      [PreventDefault, ToastError ''Please upload your qualification certificate.''])"
proof -
  let ?s = "initial_state\<lparr>enrollmentForm := filledForm\<lparr>qualification_certificate := None\<rparr>\<rparr>"
  have h: "first_name (enrollmentForm ?s) = [] \<or> last_name (enrollmentForm ?s) = [] \<or>
           qualification (enrollmentForm ?s) = [] \<or> ultrasound_experience (enrollmentForm ?s) = [] \<or>
           contact_number (enrollmentForm ?s) = [] \<or>
           qualification_certificate (enrollmentForm ?s) = None"
    by simp
  have f: "first_name (enrollmentForm ?s) \<noteq> [] \<and> last_name (enrollmentForm ?s) \<noteq> [] \<and>
           qualification (enrollmentForm ?s) \<noteq> [] \<and> ultrasound_experience (enrollmentForm ?s) \<noteq> [] \<and>
           contact_number (enrollmentForm ?s) \<noteq> []"
    by (simp add: filledForm_def)
  show ?thesis
    using incomplete_application_rejected_locally [OF h, of "Some ''c1''" "okResponse ()"] f
    by (simp add: prod_eq_iff)
qed

text \<open>
  When the upload succeeds with a body, the state has \<open>paymentSubmitted\<close> and
  \<open>paymentPending\<close> set, whatever the status field of the body; the form is closed and the
  staged file cleared; no error toast is shown; and when the status is absent or not
  \<^verbatim>\<open>pending\<close> a warning is written to the console.
\<close>

lemma payment_proof_success_with_body:
  assumes "present courseId = Some cid" and "paymentFile s = Some staged"
    and "awaitHandled submit = Inr (Some d)"
  shows "paymentSubmitted (fst (handlePaymentProofSubmit courseId submit s)) \<and>
         paymentPending (fst (handlePaymentProofSubmit courseId submit s)) \<and>
         \<not> showPaymentForm (fst (handlePaymentProofSubmit courseId submit s)) \<and>
         paymentFile (fst (handlePaymentProofSubmit courseId submit s)) = None \<and>
         filter isToastError (snd (handlePaymentProofSubmit courseId submit s)) = [] \<and>
         (data_status d \<noteq> Some ''pending'' \<longrightarrow>
            ConsoleWarn ''Payment status not returned as pending in POST response. Optimistically updating UI.''
              \<in> set (snd (handlePaymentProofSubmit courseId submit s)))"
  using assms
  by (simp add: handlePaymentProofSubmit_def Let_def case_prod_beta)

text \<open>The scenario of the specification: the body says \<^verbatim>\<open>approved\<close>.\<close>

lemma payment_proof_success_approved_body:
  "paymentSubmitted (fst (handlePaymentProofSubmit (Some ''c1'')
       (okResponse (Some \<lparr>data_status = Some ''approved'', data_message = None\<rparr>))
       (initial_state\<lparr>showPaymentForm := True, paymentFile := Some (File ''proof.png'')\<rparr>))) \<and>
   paymentPending (fst (handlePaymentProofSubmit (Some ''c1'')
       (okResponse (Some \<lparr>data_status = Some ''approved'', data_message = None\<rparr>))
       (initial_state\<lparr>showPaymentForm := True, paymentFile := Some (File ''proof.png'')\<rparr>))) \<and>
   \<not> showPaymentForm (fst (handlePaymentProofSubmit (Some ''c1'')
       (okResponse (Some \<lparr>data_status = Some ''approved'', data_message = None\<rparr>))
       (initial_state\<lparr>showPaymentForm := True, paymentFile := Some (File ''proof.png'')\<rparr>))) \<and>
   paymentFile (fst (handlePaymentProofSubmit (Some ''c1'')
       (okResponse (Some \<lparr>data_status = Some ''approved'', data_message = None\<rparr>))
       (initial_state\<lparr>showPaymentForm := True, paymentFile := Some (File ''proof.png'')\<rparr>))) = None \<and>
   filter isToastError (snd (handlePaymentProofSubmit (Some ''c1'')
       (okResponse (Some \<lparr>data_status = Some ''approved'', data_message = None\<rparr>))
       (initial_state\<lparr>showPaymentForm := True, paymentFile := Some (File ''proof.png'')\<rparr>))) = [] \<and>
   ConsoleWarn ''Payment status not returned as pending in POST response. Optimistically updating UI.''
     \<in> set (snd (handlePaymentProofSubmit (Some ''c1'')
       (okResponse (Some \<lparr>data_status = Some ''approved'', data_message = None\<rparr>))
       (initial_state\<lparr>showPaymentForm := True, paymentFile := Some (File ''proof.png'')\<rparr>)))"
proof -
  let ?d = "\<lparr>data_status = Some ''approved'', data_message = None\<rparr>"
  let ?s = "initial_state\<lparr>showPaymentForm := True, paymentFile := Some (File ''proof.png'')\<rparr>"
  have p: "present (Some ''c1'') = Some ''c1''" by simp
  have f: "paymentFile ?s = Some (File ''proof.png'')" by simp
  have a: "awaitHandled (okResponse (Some ?d)) = Inr (Some ?d)"
    by (simp add: awaitHandled_def okResponse_def handleApiResponse_def)
  show ?thesis using payment_proof_success_with_body [OF p f a] by simp
qed

text \<open>
  Claim C5 says that every successful upload, the status field absent included, sets both
  flags, closes the form and clears the staged file without showing an error. The handler
  does not do so when the upload succeeds with no body: the request resolves with
  \<^verbatim>\<open>ok\<close>, \<^verbatim>\<open>handleApiResponse\<close> returns, and yet the failure toast is shown, the flags stay
  false, the form stays open and the file stays staged.
\<close>

theorem payment_proof_success_without_body:
  "awaitHandled (okResponse (None :: payment_proof_data option)) = Inr None \<and>
   handlePaymentProofSubmit (Some ''c1'') (okResponse None)
       (initial_state\<lparr>showPaymentForm := True, paymentFile := Some (File ''proof.png'')\<rparr>) =
     ((initial_state\<lparr>showPaymentForm := True, paymentFile := Some (File ''proof.png'')\<rparr>),
      [PreventDefault, Fetch (PaymentProofReq ''c1''),
       ToastError ''Failed to submit payment proof.'']) \<and>
   \<not> paymentSubmitted (initial_state\<lparr>showPaymentForm := True, paymentFile := Some (File ''proof.png'')\<rparr>) \<and>
   \<not> paymentPending (initial_state\<lparr>showPaymentForm := True, paymentFile := Some (File ''proof.png'')\<rparr>) \<and>
   showPaymentForm (initial_state\<lparr>showPaymentForm := True, paymentFile := Some (File ''proof.png'')\<rparr>) \<and>
   paymentFile (initial_state\<lparr>showPaymentForm := True, paymentFile := Some (File ''proof.png'')\<rparr>) = Some (File ''proof.png'')"
  by (simp add: handlePaymentProofSubmit_def awaitHandled_def okResponse_def
      handleApiResponse_def initial_state_def)

text \<open>
  Claim C10. Without a staged payment file, or without a course id, submitting the
  payment form does nothing but \<^verbatim>\<open>preventDefault\<close>: no request, no state change, no toast.
\<close>

theorem payment_submit_without_file_noop:
  assumes "present courseId = None \<or> paymentFile s = None"
  shows "handlePaymentProofSubmit courseId submit s = (s, [PreventDefault]) \<and>
         filter isFetch (snd (handlePaymentProofSubmit courseId submit s)) = [] \<and>
         filter isToast (snd (handlePaymentProofSubmit courseId submit s)) = []"
  using assms
  by (auto simp: handlePaymentProofSubmit_def split: option.splits)

theorem payment_submit_without_file_noop_witness:
  "paymentFile (initial_state\<lparr>showPaymentForm := True\<rparr>) = None \<and>
   handlePaymentProofSubmit (Some ''c1'') (okResponse (Some \<lparr>data_status = Some ''pending'', data_message = None\<rparr>))
       (initial_state\<lparr>showPaymentForm := True\<rparr>) =
     (initial_state\<lparr>showPaymentForm := True\<rparr>, [PreventDefault])"
proof -
  have h: "present (Some ''c1'') = None \<or> paymentFile (initial_state\<lparr>showPaymentForm := True\<rparr>) = None"
    by (simp add: initial_state_def)
  show ?thesis
    using payment_submit_without_file_noop [OF h, of "okResponse (Some \<lparr>data_status = Some ''pending'', data_message = None\<rparr>)"]
    by (simp add: initial_state_def)
qed

section \<open>Properties of the watched toggle\<close>

lemma markWatched_id: "video_id (markWatched i b v) = video_id v"
  by (simp add: markWatched_def)

lemma markWatched_watched: "video_id v = i \<Longrightarrow> watched (markWatched i b v) = b"
  by (simp add: markWatched_def)

lemma toggle_list_ids: "map video_id (map (markWatched i b) vs) = map video_id vs"
  by (simp add: comp_def markWatched_id)

lemma toggle_list_watched:
  assumes "v \<in> set (map (markWatched i b) vs)" and "video_id v = i"
  shows "watched v = b"
proof -
  from assms(1) obtain u where u: "u \<in> set vs" and v: "v = markWatched i b u"
    by (auto simp only: set_map)
  from assms(2) v have "video_id u = i" by (simp add: markWatched_id)
  then show ?thesis by (simp add: v markWatched_watched)
qed

lemma toggle_list_member:
  assumes "x \<in> set vs"
  shows "x\<lparr>watched := b\<rparr> \<in> set (map (markWatched (video_id x) b) vs)"
proof -
  have "markWatched (video_id x) b x = x\<lparr>watched := b\<rparr>" by (simp add: markWatched_def)
  moreover from assms have "markWatched (video_id x) b x \<in> markWatched (video_id x) b ` set vs"
    by (rule imageI)
  ultimately show ?thesis by (simp only: set_map)
qed

lemma toggle_resolved_videos:
  "videos (fst (handleVideoToggleWatched video (Resolved r) s)) =
     map (markWatched (video_id video) (\<not> watched video)) (videos s)"
  by (simp add: handleVideoToggleWatched_def Let_def)

lemma toggle_resolved_selected:
  "selectedVideo (fst (handleVideoToggleWatched video (Resolved r) s)) =
     (case selectedVideo s of
        None \<Rightarrow> None
      | Some prev \<Rightarrow> if video_id prev = video_id video
                     then Some (prev\<lparr>watched := \<not> watched video\<rparr>) else Some prev)"
  by (simp add: handleVideoToggleWatched_def Let_def)

lemma toggle_rejected:
  "videos (fst (handleVideoToggleWatched video (Rejected e) s)) = videos s"
  "selectedVideo (fst (handleVideoToggleWatched video (Rejected e) s)) = selectedVideo s"
  by (simp_all add: handleVideoToggleWatched_def Let_def)

text \<open>
  For a video of the list: when the request resolves, the list keeps its ids, the entry
  appears with the flag inverted, every entry with the video's id and the selected copy
  (when it has that id) carry the negation of the video's prior flag, so the two copies
  agree; when the request rejects, neither the list nor the selected copy changes.
\<close>

lemma toggle_watched_copies_agree:
  assumes "video \<in> set (videos s)"
  shows "(f = Resolved r \<longrightarrow>
            map video_id (videos (fst (handleVideoToggleWatched video f s))) = map video_id (videos s) \<and>
            video\<lparr>watched := \<not> watched video\<rparr> \<in> set (videos (fst (handleVideoToggleWatched video f s))) \<and>
            (\<forall>v \<in> set (videos (fst (handleVideoToggleWatched video f s))).
                video_id v = video_id video \<longrightarrow> watched v = (\<not> watched video)) \<and>
            (\<forall>sel. selectedVideo s = Some sel \<and> video_id sel = video_id video \<longrightarrow>
                selectedVideo (fst (handleVideoToggleWatched video f s)) =
                  Some (sel\<lparr>watched := \<not> watched video\<rparr>))) \<and>
         (f = Rejected e \<longrightarrow>
            videos (fst (handleVideoToggleWatched video f s)) = videos s \<and>
            selectedVideo (fst (handleVideoToggleWatched video f s)) = selectedVideo s)"
proof (intro conjI impI)
  assume f: "f = Resolved r"
  show "map video_id (videos (fst (handleVideoToggleWatched video f s))) = map video_id (videos s)"
    by (simp only: f toggle_resolved_videos toggle_list_ids)
  show "video\<lparr>watched := \<not> watched video\<rparr> \<in> set (videos (fst (handleVideoToggleWatched video f s)))"
    unfolding f toggle_resolved_videos by (rule toggle_list_member [OF assms])
  show "\<forall>v \<in> set (videos (fst (handleVideoToggleWatched video f s))).
          video_id v = video_id video \<longrightarrow> watched v = (\<not> watched video)"
    unfolding f toggle_resolved_videos by (blast dest: toggle_list_watched)
  show "\<forall>sel. selectedVideo s = Some sel \<and> video_id sel = video_id video \<longrightarrow>
          selectedVideo (fst (handleVideoToggleWatched video f s)) =
            Some (sel\<lparr>watched := \<not> watched video\<rparr>)"
    by (simp add: f toggle_resolved_selected)
next
  assume f: "f = Rejected e"
  show "videos (fst (handleVideoToggleWatched video f s)) = videos s"
    by (simp only: f toggle_rejected)
  show "selectedVideo (fst (handleVideoToggleWatched video f s)) = selectedVideo s"
    by (simp only: f toggle_rejected)
qed

lemma toggle_watched_copies_agree_sample:
  "sampleVideo \<in> set (videos (initial_state\<lparr>videos := [sampleVideo], selectedVideo := Some sampleVideo\<rparr>)) \<and>
   \<not> watched sampleVideo \<and>
   videos (fst (handleVideoToggleWatched sampleVideo (okResponse ())
       (initial_state\<lparr>videos := [sampleVideo], selectedVideo := Some sampleVideo\<rparr>))) =
     [sampleVideo\<lparr>watched := True\<rparr>] \<and>
   selectedVideo (fst (handleVideoToggleWatched sampleVideo (okResponse ())
       (initial_state\<lparr>videos := [sampleVideo], selectedVideo := Some sampleVideo\<rparr>))) =
     Some (sampleVideo\<lparr>watched := True\<rparr>) \<and>
   videos (fst (handleVideoToggleWatched sampleVideo (Rejected (OtherError ''offline''))
       (initial_state\<lparr>videos := [sampleVideo], selectedVideo := Some sampleVideo\<rparr>))) =
     [sampleVideo] \<and>
   selectedVideo (fst (handleVideoToggleWatched sampleVideo (Rejected (OtherError ''offline''))
       (initial_state\<lparr>videos := [sampleVideo], selectedVideo := Some sampleVideo\<rparr>))) =
     Some sampleVideo"
proof -
  let ?s = "initial_state\<lparr>videos := [sampleVideo], selectedVideo := Some sampleVideo\<rparr>"
  let ?r = "Response True 200 (Inr ()) :: unit response"
  have h: "sampleVideo \<in> set (videos ?s)" by simp
  have w: "\<not> watched sampleVideo" by (simp add: sampleVideo_def)
  have sel: "selectedVideo ?s = Some sampleVideo \<and> video_id sampleVideo = video_id sampleVideo"
    by simp
  have l: "videos (fst (handleVideoToggleWatched sampleVideo (Resolved ?r) ?s)) =
             [sampleVideo\<lparr>watched := True\<rparr>]"
    by (simp add: toggle_resolved_videos markWatched_def w)
  from toggle_watched_copies_agree [OF h, of "Resolved ?r" ?r "OtherError ''offline''"] sel w
  have a: "selectedVideo (fst (handleVideoToggleWatched sampleVideo (Resolved ?r) ?s)) =
             Some (sampleVideo\<lparr>watched := True\<rparr>)"
    by simp
  from toggle_watched_copies_agree [OF h, of "Rejected (OtherError ''offline'')" ?r "OtherError ''offline''"]
  have b: "videos (fst (handleVideoToggleWatched sampleVideo (Rejected (OtherError ''offline'')) ?s)) = [sampleVideo]"
    and c: "selectedVideo (fst (handleVideoToggleWatched sampleVideo (Rejected (OtherError ''offline'')) ?s)) =
             Some sampleVideo"
    by simp_all
  show ?thesis using h w l a b c by (simp add: okResponse_def)
qed

text \<open>
  Claim C6 says that after a failed toggle neither the list entry nor the selected copy
  changes. The handler awaits \<^verbatim>\<open>fetchWithAuth\<close> only: it does not pass the response to
  \<^verbatim>\<open>handleApiResponse\<close>, as the other handlers do, and does not read \<^verbatim>\<open>ok\<close>. A request
  that the server answers with an error status, and on which \<^verbatim>\<open>handleApiResponse\<close> would
  throw, takes the path of a successful one: both copies are inverted and the success
  toast is shown.
\<close>

theorem toggle_server_failure_flips_copies:
  "sampleVideo \<in> set (videos (initial_state\<lparr>videos := [sampleVideo], selectedVideo := Some sampleVideo\<rparr>)) \<and>
   \<not> watched sampleVideo \<and>
   awaitHandled (Resolved (Response False 500 (Inl (OtherError ''Internal Server Error'')))) = Inl (OtherError ''Internal Server Error'') \<and>
   videos (fst (handleVideoToggleWatched sampleVideo (Resolved (Response False 500 (Inl (OtherError ''Internal Server Error'')))) (initial_state\<lparr>videos := [sampleVideo], selectedVideo := Some sampleVideo\<rparr>))) =
     [sampleVideo\<lparr>watched := True\<rparr>] \<and>
   selectedVideo (fst (handleVideoToggleWatched sampleVideo (Resolved (Response False 500 (Inl (OtherError ''Internal Server Error'')))) (initial_state\<lparr>videos := [sampleVideo], selectedVideo := Some sampleVideo\<rparr>))) =
     Some (sampleVideo\<lparr>watched := True\<rparr>) \<and>
   snd (handleVideoToggleWatched sampleVideo (Resolved (Response False 500 (Inl (OtherError ''Internal Server Error'')))) (initial_state\<lparr>videos := [sampleVideo], selectedVideo := Some sampleVideo\<rparr>)) =
     [Fetch (VideoCompleteReq ''v1''), ToastSuccess ''Video marked as completed!'']"
  by (simp add: handleVideoToggleWatched_def Let_def markWatched_def sampleVideo_def
      awaitHandled_def handleApiResponse_def)

end
